theory Spec2Isabelle
  imports Complex_Main "HOL-Library.Log_Nat"
begin

section \<open>Numbers of the script language\<close>

text \<open>
  The script is JavaScript: every temperature and every threshold is a Number, an IEEE 754
  binary64 value. A finite Number is modelled by the real number it denotes (the two zeros are
  identified: the script only compares and adds). The operator \<open>+\<close> is exact addition
  followed by rounding to the nearest representable value, ties to even.
\<close>

datatype number = NaN | NegInf | Finite real | PosInf

definition pow2 :: "int \<Rightarrow> real" where
  "pow2 e = (if 0 \<le> e then 2 ^ nat e else 1 / 2 ^ nat (- e))"

text \<open>For \<open>0 < x\<close>, the exponent \<open>e\<close> with \<open>2 ^ e \<le> x < 2 ^ (e + 1)\<close>.\<close>

definition binade :: "real \<Rightarrow> int" where
  "binade x = (if 1 \<le> x then bitlen \<lfloor>x\<rfloor> - 1 else - bitlen (\<lceil>1 / x\<rceil> - 1))"

definition ties_even :: "real \<Rightarrow> int" where
  "ties_even x = (let f = \<lfloor>x\<rfloor>; d = x - of_int f in
     if d < 1 / 2 then f else if 1 / 2 < d then f + 1 else if even f then f else f + 1)"

text \<open>
  Rounding of an exact result to binary64: 53 significant bits, exponents from \<open>- 1022\<close>
  (below that the spacing stays \<open>2 ^ - 1074\<close>: subnormals), overflow to infinity.
\<close>

definition round64 :: "real \<Rightarrow> number" where
  "round64 x = (if x = 0 then Finite 0 else
     let ulp = pow2 (max (binade \<bar>x\<bar>) (- 1022) - 52);
         r = of_int (ties_even (x / ulp)) * ulp
     in if 2 ^ 1024 \<le> r then PosInf else if r \<le> - (2 ^ 1024) then NegInf else Finite r)"

text \<open>The operator \<open>a + b\<close> on Numbers.\<close>

fun jadd :: "number \<Rightarrow> number \<Rightarrow> number" where
  "jadd (Finite a) (Finite b) = round64 (a + b)"
| "jadd NaN _ = NaN"
| "jadd _ NaN = NaN"
| "jadd PosInf NegInf = NaN"
| "jadd NegInf PosInf = NaN"
| "jadd PosInf _ = PosInf"
| "jadd _ PosInf = PosInf"
| "jadd NegInf _ = NegInf"
| "jadd _ NegInf = NegInf"

text \<open>The operator \<open>a * b\<close> on Numbers.\<close>

fun sign :: "number \<Rightarrow> int" where
  "sign NaN = 0"
| "sign NegInf = - 1"
| "sign PosInf = 1"
| "sign (Finite a) = (if a < 0 then - 1 else if a = 0 then 0 else 1)"

fun jmul :: "number \<Rightarrow> number \<Rightarrow> number" where
  "jmul (Finite a) (Finite b) = round64 (a * b)"
| "jmul NaN _ = NaN"
| "jmul _ NaN = NaN"
| "jmul a b = (if sign a * sign b = 0 then NaN else if sign a * sign b < 0 then NegInf else PosInf)"

text \<open>
  The relational operators. \<open>a < b\<close> is false as soon as an operand is NaN; \<open>a <= b\<close> is
  evaluated as "not \<open>b < a\<close>, and no operand is NaN", \<open>a >= b\<close> as "not \<open>a < b\<close>, and no
  operand is NaN".
\<close>

fun jlt :: "number \<Rightarrow> number \<Rightarrow> bool" where
  "jlt NaN _ = False"
| "jlt _ NaN = False"
| "jlt (Finite a) (Finite b) = (a < b)"
| "jlt PosInf _ = False"
| "jlt _ NegInf = False"
| "jlt NegInf _ = True"
| "jlt _ PosInf = True"

definition jle :: "number \<Rightarrow> number \<Rightarrow> bool" where
  "jle a b = (a \<noteq> NaN \<and> b \<noteq> NaN \<and> \<not> jlt b a)"

definition jge :: "number \<Rightarrow> number \<Rightarrow> bool" where
  "jge a b = (a \<noteq> NaN \<and> b \<noteq> NaN \<and> \<not> jlt a b)"

section \<open>The configuration and the device\<close>

text \<open>
  The configuration as \<open>checkAndAdjust\<close> and \<open>debugLog\<close> read it: the seven fields of
  \<open>DEFAULT_CONFIG\<close>, each of the type its default has.
\<close>

record config =
  scanInterval :: number
  hotWaterTemperatureID :: number
  heatingSourceTemperatureID :: number
  maxWaterTemp :: number
  waterPumpHysteresis :: number
  waterPumpStopDifference :: number
  debuggingOn :: bool

text \<open>
  A printed message is a concatenation of string literals and Numbers; the Numbers are kept
  as they are instead of being rendered to decimal text.
\<close>

datatype fragment = S string | N number

type_synonym message = "fragment list"

text \<open>The calls the script makes through \<open>Shelly.call\<close>.\<close>

datatype rpc = SwitchSet nat bool | KVSGet string

text \<open>
  The value of the \<open>tC\<close> field of a sensor status: a Number, or \<open>null\<close> when the sensor
  answered without a value. In a comparison and in a sum with a Number, \<open>null\<close> counts as
  0; in a message it reads \<open>null\<close>.
\<close>

datatype reading = Null | Num number

fun ToNumber :: "reading \<Rightarrow> number" where
  "ToNumber Null = Finite 0"
| "ToNumber (Num n) = n"

fun shown :: "reading \<Rightarrow> fragment" where
  "shown Null = S ''null''"
| "shown (Num n) = N n"

text \<open>
  The device the script runs on, as far as the script observes it:
  \<^item> \<open>switch_output\<close>: \<open>Shelly.getComponentStatus('Switch', 0).output\<close>;
  \<^item> \<open>temperatures id\<close>: what reading \<open>Shelly.getComponentStatus('Temperature', id).tC\<close>
    does: it raises (\<open>Inl\<close>, with the text of the exception) or yields the field;
  \<^item> \<open>switch_reply\<close>: the \<open>error_code\<close> and \<open>error_message\<close> the device answers a
    \<open>Switch.Set\<close> with; the switch follows the command exactly when the code is 0, and
    the answer arrives before the call returns;
  \<^item> \<open>kvs_code\<close>, \<open>kvs_value\<close>: the \<open>error_code\<close> and \<open>result.value\<close> answered to
    \<open>KVS.Get\<close> (\<open>None\<close> is \<open>null\<close>);
  \<^item> \<open>timer\<close>: the period and repeat flag of the timer set by \<open>Timer.set\<close>, whose
    callback is \<open>checkAndAdjust(CONFIG)\<close>;
  \<^item> \<open>call_log\<close>, \<open>print_log\<close>: the calls made and the lines printed so far.
\<close>

record device =
  switch_output :: bool
  temperatures :: "number \<Rightarrow> string + reading"
  switch_reply :: "int \<times> string"
  kvs_code :: int
  kvs_value :: "string option"
  timer :: "(number \<times> bool) option"
  call_log :: "rpc list"
  print_log :: "message list"

section \<open>The script\<close>

text \<open>
  The global \<open>CONFIG\<close> is assigned once, in the callback of \<open>init\<close>, before any function
  below runs; it is passed explicitly as the first argument \<open>G\<close>.
\<close>

definition print :: "message \<Rightarrow> device \<Rightarrow> device" where
  "print m d = d\<lparr>print_log := print_log d @ [m]\<rparr>"

definition debugLog :: "config \<Rightarrow> message \<Rightarrow> device \<Rightarrow> device" where
  "debugLog G m d = (if debuggingOn G then print m d else d)"

definition waterPumpRunning :: "device \<Rightarrow> bool" where
  "waterPumpRunning d = switch_output d"

text \<open>\<open>Shelly.call("Switch.Set", {id: 0, on: on}, callback)\<close>, up to the callback.\<close>

definition Switch_Set :: "bool \<Rightarrow> device \<Rightarrow> device" where
  "Switch_Set on d =
     d\<lparr>call_log := call_log d @ [SwitchSet 0 on],
       switch_output := (if fst (switch_reply d) = 0 then on else switch_output d)\<rparr>"

definition startWaterPump :: "config \<Rightarrow> device \<Rightarrow> device" where
  "startWaterPump G d =
     (let d1 = Switch_Set True d in
      if fst (switch_reply d) \<noteq> 0
      then debugLog G [S ''Error starting pump: '', S (snd (switch_reply d))] d1
      else debugLog G [S ''Water pump was started successfully.''] d1)"

definition stopWaterPump :: "config \<Rightarrow> device \<Rightarrow> device" where
  "stopWaterPump G d =
     (let d1 = Switch_Set False d in
      if fst (switch_reply d) \<noteq> 0
      then debugLog G [S ''Error stopping pump: '', S (snd (switch_reply d))] d1
      else debugLog G [S ''Water pump was stopped successfully.''] d1)"

text \<open>The two characters \<open>\<degree>C\<close> of the temperature messages.\<close>

definition degC :: string where
  "degC = [CHR 0xB0, CHR ''C'']"

text \<open>
  \<open>checkAndAdjust(config)\<close>. A read that raises leaves the \<open>try\<close> block at once: the
  second sensor is not read after the first has raised, and the \<open>catch\<close> prints the
  exception. The field \<open>tC\<close> is used as it comes: nothing tests it for \<open>null\<close>.
\<close>

definition checkAndAdjust :: "config \<Rightarrow> config \<Rightarrow> device \<Rightarrow> device" where
  "checkAndAdjust G config d =
     (case temperatures d (hotWaterTemperatureID config) of
        Inl err \<Rightarrow> debugLog G [S ''Error: '', S err] d
      | Inr hotWaterTemperature \<Rightarrow>
     (case temperatures d (heatingSourceTemperatureID config) of
        Inl err \<Rightarrow> debugLog G [S ''Error: '', S err] d
      | Inr heatingSourceTemperature \<Rightarrow>
     (let d1 = debugLog G [S ''Storage Tank Temp: '', shown hotWaterTemperature,
                 S (degC @ '', Heating Source Temp: ''), shown heatingSourceTemperature,
                 S degC] d
      in
        if jge (ToNumber hotWaterTemperature) (maxWaterTemp config) \<and> waterPumpRunning d1 then
          stopWaterPump G
            (debugLog G [S ''Storage tank at maximum temperature ('', shown hotWaterTemperature,
               S (degC @ ''), stopping pump...'')] d1)
        else if jle (ToNumber heatingSourceTemperature)
                  (jadd (ToNumber hotWaterTemperature) (waterPumpStopDifference config))
                \<and> waterPumpRunning d1 then
          stopWaterPump G
            (debugLog G [S ''Temperature difference is too low, stopping pump for efficiency...''] d1)
        else if jlt (ToNumber hotWaterTemperature) (maxWaterTemp config)
                \<and> jge (ToNumber heatingSourceTemperature)
                    (jadd (ToNumber hotWaterTemperature) (waterPumpHysteresis config))
                \<and> \<not> waterPumpRunning d1 then
          startWaterPump G (debugLog G [S ''Heating source is hot enough, starting pump...''] d1)
        else d1)))"

text \<open>What one run of \<open>checkAndAdjust\<close> adds to the call log and to the print log.\<close>

definition commands :: "config \<Rightarrow> config \<Rightarrow> device \<Rightarrow> rpc list" where
  "commands G config d = drop (length (call_log d)) (call_log (checkAndAdjust G config d))"

definition printed :: "config \<Rightarrow> config \<Rightarrow> device \<Rightarrow> message list" where
  "printed G config d = drop (length (print_log d)) (print_log (checkAndAdjust G config d))"

section \<open>Loading the configuration\<close>

text \<open>
  The values \<open>JSON.parse\<close> can yield. An object is the list of its own enumerable
  properties, in the order of their enumeration and with distinct names.
\<close>

datatype jsval = JNull | JBool bool | JNum number | JStr string | JArr "jsval list"
  | JObj "(string \<times> jsval) list"

type_synonym object = "(string \<times> jsval) list"

definition KVS_CONFIG_KEY :: string where
  "KVS_CONFIG_KEY = ''indirect_heating_config''"

definition DEFAULT_CONFIG :: object where
  "DEFAULT_CONFIG =
     [(''scanInterval'', JNum (Finite 30)),
      (''hotWaterTemperatureID'', JNum (Finite 100)),
      (''heatingSourceTemperatureID'', JNum (Finite 101)),
      (''maxWaterTemp'', JNum (Finite 65)),
      (''waterPumpHysteresis'', JNum (Finite 7)),
      (''waterPumpStopDifference'', JNum (Finite 5)),
      (''debuggingOn'', JBool False)]"

text \<open>
  An array index is the canonical decimal text of a number below \<open>2 ^ 32 - 1\<close>. The own
  properties of an object are enumerated with the array indices first, in ascending order,
  and the other names after them in the order of their creation.
\<close>

definition digit :: "char \<Rightarrow> bool" where
  "digit c = (48 \<le> (of_char c :: nat) \<and> (of_char c :: nat) \<le> 57)"

definition decimal :: "string \<Rightarrow> nat" where
  "decimal k = foldl (\<lambda>n c. 10 * n + (of_char c - 48)) 0 k"

definition array_index :: "string \<Rightarrow> nat option" where
  "array_index k =
     (if k \<noteq> [] \<and> list_all digit k \<and> (k = ''0'' \<or> hd k \<noteq> CHR ''0'')
         \<and> decimal k < 2 ^ 32 - 1
      then Some (decimal k) else None)"

fun replace :: "string \<Rightarrow> jsval \<Rightarrow> object \<Rightarrow> object" where
  "replace k v [] = []"
| "replace k v ((k', v') # ps) = (if k = k' then (k, v) # ps else (k', v') # replace k v ps)"

fun insert_index :: "nat \<Rightarrow> string \<Rightarrow> jsval \<Rightarrow> object \<Rightarrow> object" where
  "insert_index i k v [] = [(k, v)]"
| "insert_index i k v ((k', v') # ps) =
     (case array_index k' of
        Some j \<Rightarrow> if j < i then (k', v') # insert_index i k v ps else (k, v) # (k', v') # ps
      | None \<Rightarrow> (k, v) # (k', v') # ps)"

text \<open>
  The assignment \<open>target[k] = v\<close> on a target created by \<open>{}\<close>. An existing property
  keeps its place and takes the value; a new one is created at its place in the
  enumeration. The name \<open>__proto__\<close> is not a property of the target: the assignment runs
  the setter inherited from \<open>Object.prototype\<close>, which creates no property (an object or
  \<open>null\<close> becomes the prototype of the target, any other value is dropped). The
  prototype is not part of this model: the script reads own properties of \<open>CONFIG\<close> only.
\<close>

definition put :: "string \<Rightarrow> jsval \<Rightarrow> object \<Rightarrow> object" where
  "put k v t =
     (if k = ''__proto__'' then t
      else if k \<in> set (map fst t) then replace k v t
      else (case array_index k of
              Some i \<Rightarrow> insert_index i k v t
            | None \<Rightarrow> t @ [(k, v)]))"

text \<open>The index keys \<open>"0"\<close>, \<open>"1"\<close>, ... of arrays and strings.\<close>

fun show_nat :: "nat \<Rightarrow> string" where
  "show_nat n = (if n < 10 then [''0123456789'' ! n]
                 else show_nat (n div 10) @ [''0123456789'' ! (n mod 10)])"

text \<open>
  The own enumerable properties \<open>Object.assign\<close> copies from a source: those of an
  object, the elements of an array, the characters of a string, none of any other value.
\<close>

fun own_props :: "jsval \<Rightarrow> object" where
  "own_props (JObj ps) = ps"
| "own_props (JArr xs) = zip (map show_nat [0..<length xs]) xs"
| "own_props (JStr s) = zip (map show_nat [0..<length s]) (map (\<lambda>c. JStr [c]) s)"
| "own_props _ = []"

definition Object_assign :: "object \<Rightarrow> object \<Rightarrow> object" where
  "Object_assign target source = foldl (\<lambda>t (k, v). put k v t) target source"

text \<open>\<open>Object.keys\<close> raises a TypeError on \<open>null\<close>.\<close>

fun Object_keys :: "jsval \<Rightarrow> string + string list" where
  "Object_keys JNull = Inl ''TypeError: Cannot convert undefined or null to object''"
| "Object_keys v = Inr (remdups (map fst (own_props v)))"

text \<open>
  The callback of \<open>KVS.Get\<close>, up to the merge: \<open>loadedConfig\<close> stays \<open>{}\<close> unless the
  store answered without error with a value that parses. \<open>JSON.parse\<close> is a parameter:
  it raises (\<open>Inl\<close>) or yields a value.
\<close>

definition loadedConfig :: "(string \<Rightarrow> string + jsval) \<Rightarrow> device \<Rightarrow> jsval" where
  "loadedConfig JSON_parse d =
     (if kvs_code d = 0 then
        (case kvs_value d of
           None \<Rightarrow> JObj []
         | Some text \<Rightarrow> (case JSON_parse text of Inl e \<Rightarrow> JObj [] | Inr v \<Rightarrow> v))
      else JObj [])"

text \<open>\<open>CONFIG = Object.assign({}, DEFAULT_CONFIG, loadedConfig)\<close>.\<close>

definition mergedCONFIG :: "jsval \<Rightarrow> object" where
  "mergedCONFIG loaded = Object_assign (Object_assign [] DEFAULT_CONFIG) (own_props loaded)"

text \<open>
  Reading the merged object as the typed configuration: the six numeric fields must hold
  Numbers; \<open>debuggingOn\<close> is only ever tested for truthiness. A merged object with a
  numeric field of another JSON type is outside this model of the arithmetic.
\<close>

definition num_field :: "object \<Rightarrow> string \<Rightarrow> number option" where
  "num_field obj k = (case map_of obj k of Some (JNum n) \<Rightarrow> Some n | _ \<Rightarrow> None)"

fun truthy :: "jsval option \<Rightarrow> bool" where
  "truthy None = False"
| "truthy (Some JNull) = False"
| "truthy (Some (JBool b)) = b"
| "truthy (Some (JNum n)) = (n \<noteq> NaN \<and> n \<noteq> Finite 0)"
| "truthy (Some (JStr s)) = (s \<noteq> [])"
| "truthy (Some (JArr xs)) = True"
| "truthy (Some (JObj ps)) = True"

definition as_config :: "object \<Rightarrow> config option" where
  "as_config obj =
     (case num_field obj ''scanInterval'' of None \<Rightarrow> None | Some si \<Rightarrow>
     (case num_field obj ''hotWaterTemperatureID'' of None \<Rightarrow> None | Some hid \<Rightarrow>
     (case num_field obj ''heatingSourceTemperatureID'' of None \<Rightarrow> None | Some sid \<Rightarrow>
     (case num_field obj ''maxWaterTemp'' of None \<Rightarrow> None | Some mx \<Rightarrow>
     (case num_field obj ''waterPumpHysteresis'' of None \<Rightarrow> None | Some hy \<Rightarrow>
     (case num_field obj ''waterPumpStopDifference'' of None \<Rightarrow> None | Some sd \<Rightarrow>
        Some \<lparr>scanInterval = si, hotWaterTemperatureID = hid,
              heatingSourceTemperatureID = sid, maxWaterTemp = mx,
              waterPumpHysteresis = hy, waterPumpStopDifference = sd,
              debuggingOn = truthy (map_of obj ''debuggingOn'')\<rparr>))))))"

text \<open>\<open>run()\<close>: stop the pump, check once, start the recurring timer.\<close>

definition run :: "config \<Rightarrow> device \<Rightarrow> device" where
  "run G d =
     (let d1 = stopWaterPump G d;
          d2 = checkAndAdjust G G d1
      in d2\<lparr>timer := Some (jmul (scanInterval G) (Finite 1000), True)\<rparr>)"

text \<open>
  \<open>init()\<close> with the callback of \<open>KVS.Get\<close> run to its end. The result is the merged
  \<open>CONFIG\<close> object and the device after \<open>run()\<close>, or the way the callback ended early:
  with an exception nothing catches, and the device as it was left at that moment.
\<close>

datatype failure = Uncaught string device | NotModelled

definition init :: "(string \<Rightarrow> string + jsval) \<Rightarrow> device \<Rightarrow> failure + object \<times> device" where
  "init JSON_parse d =
     (let d1 = d\<lparr>call_log := call_log d @ [KVSGet KVS_CONFIG_KEY]\<rparr>;
          loaded = loadedConfig JSON_parse d1;
          CONFIG = mergedCONFIG loaded
      in case Object_keys loaded of
           Inl e \<Rightarrow> Inl (Uncaught e d1)
         | Inr keys \<Rightarrow>
        (case as_config CONFIG of
           None \<Rightarrow> Inl NotModelled
         | Some G \<Rightarrow>
             Inr (CONFIG,
               run G (debugLog G
                 [S (if 0 < length keys then ''Custom configuration loaded from KVS.''
                     else ''No custom configuration found in KVS. Using default settings.'')]
                 d1))))"

section \<open>Fixtures\<close>

text \<open>The typed reading of \<open>DEFAULT_CONFIG\<close>.\<close>

definition default_config :: config where
  "default_config =
     \<lparr>scanInterval = Finite 30, hotWaterTemperatureID = Finite 100,
      heatingSourceTemperatureID = Finite 101, maxWaterTemp = Finite 65,
      waterPumpHysteresis = Finite 7, waterPumpStopDifference = Finite 5,
      debuggingOn = False\<rparr>"

text \<open>
  A device with the two default sensors answering \<open>tank\<close> and \<open>source\<close>, no other
  sensor, the switch in state \<open>on\<close>, a switch that obeys, and nothing stored.
\<close>

definition mock :: "string + reading \<Rightarrow> string + reading \<Rightarrow> bool \<Rightarrow> device" where
  "mock tank source on =
     \<lparr>switch_output = on,
      temperatures = (\<lambda>id. if id = Finite 100 then tank
                           else if id = Finite 101 then source
                           else Inl ''Temperature sensor not found''),
      switch_reply = (0, []),
      kvs_code = 0,
      kvs_value = None,
      timer = None,
      call_log = [],
      print_log = []\<rparr>"

text \<open>The same device with \<open>raw\<close> stored under \<open>KVS_CONFIG_KEY\<close>.\<close>

definition stored :: "string \<Rightarrow> device" where
  "stored raw = (mock (Inr (Num (Finite 40))) (Inr (Num (Finite 48))) False)\<lparr>kvs_value := Some raw\<rparr>"

text \<open>A device whose pump is running when the script starts, with \<open>raw\<close> stored.\<close>

definition running_stored :: "string \<Rightarrow> device" where
  "running_stored raw =
     (mock (Inr (Num (Finite 40))) (Inr (Num (Finite 48))) True)\<lparr>kvs_value := Some raw\<rparr>"

text \<open>
  \<open>JSON.parse\<close> on the three texts the examples store: \<open>{}\<close>, \<open>null\<close> and the
  malformed \<open>{oops\<close>.
\<close>

definition mock_parse :: "string \<Rightarrow> string + jsval" where
  "mock_parse raw =
     (if raw = ''{}'' then Inr (JObj [])
      else if raw = ''null'' then Inr JNull
      else Inl ''SyntaxError: Unexpected token'')"

text \<open>
  A configuration whose two hysteresis values differ by \<open>2 ^ - 50\<close>: the start threshold
  is the Number written \<open>5.000000000000001\<close>, the stop threshold is \<open>5\<close>.
\<close>

definition narrow_config :: config where
  "narrow_config = default_config\<lparr>waterPumpHysteresis := Finite (5 + 1 / 2 ^ 50)\<rparr>"

text \<open>The defaults with \<open>debuggingOn\<close> set, so that \<open>debugLog\<close> prints.\<close>

definition verbose_config :: config where
  "verbose_config = default_config\<lparr>debuggingOn := True\<rparr>"

section \<open>Notions used to state the properties\<close>

text \<open>The exception of the first read of \<open>checkAndAdjust\<close> that raises, if one does.\<close>

definition first_fault :: "config \<Rightarrow> device \<Rightarrow> string option" where
  "first_fault config d =
     (case temperatures d (hotWaterTemperatureID config) of
        Inl err \<Rightarrow> Some err
      | Inr t \<Rightarrow> (case temperatures d (heatingSourceTemperatureID config) of
                    Inl err \<Rightarrow> Some err | Inr s \<Rightarrow> None))"

text \<open>
  A reading has failed when the read raised or the sensor answered without a value.
\<close>

fun failed :: "string + reading \<Rightarrow> bool" where
  "failed (Inl err) = True"
| "failed (Inr Null) = True"
| "failed (Inr (Num n)) = False"

text \<open>
  The recognized field names are the keys of \<open>DEFAULT_CONFIG\<close>; \<open>strip_unrecognized\<close>
  removes every other entry from an override map.
\<close>

definition recognized :: "string \<Rightarrow> bool" where
  "recognized k = (k \<in> set (map fst DEFAULT_CONFIG))"

definition strip_unrecognized :: "object \<Rightarrow> object" where
  "strip_unrecognized ps = filter (\<lambda>(k, v). recognized k) ps"

section \<open>Auxiliary facts\<close>

subsection \<open>Numbers\<close>

lemmas round64_eval = round64_def binade_def pow2_def ties_even_def Let_def compute_bitlen

lemma round_examples:
  "round64 45 = Finite 45" "round64 47 = Finite 47" "round64 55 = Finite 55"
  "round64 72 = Finite 72" "round64 7 = Finite 7"
  by (simp_all add: round64_eval)

text \<open>The rounding reproduces the textbook sum \<open>0.1 + 0.2 = 0.30000000000000004\<close>.\<close>

lemma round_tenths:
  "round64 (1 / 10) = Finite (3602879701896397 / 36028797018963968)"
  "round64 (2 / 10) = Finite (3602879701896397 / 18014398509481984)"
  "jadd (Finite (3602879701896397 / 36028797018963968))
        (Finite (3602879701896397 / 18014398509481984))
     = Finite (1351079888211149 / 4503599627370496)"
  "round64 (3 / 10) = Finite (5404319552844595 / 18014398509481984)"
  by (simp_all add: round64_eval)

lemma jge_not_jlt: "jge a b \<Longrightarrow> \<not> jlt a b"
  by (simp add: jge_def)

lemma jlt_irrefl: "\<not> jlt a a"
  by (cases a) simp_all

lemma jlt_chain: "jge s b \<Longrightarrow> jlt a b \<Longrightarrow> \<not> jle s a"
  by (cases s; cases a; cases b) (auto simp: jge_def jle_def)

lemma jlt_chain2: "jle s a \<Longrightarrow> jlt a b \<Longrightarrow> \<not> jge s b"
  by (cases s; cases a; cases b) (auto simp: jge_def jle_def)

subsection \<open>What the functions of the script change\<close>

lemma debugLog_fields [simp]:
  "call_log (debugLog G m d) = call_log d"
  "switch_output (debugLog G m d) = switch_output d"
  "switch_reply (debugLog G m d) = switch_reply d"
  "temperatures (debugLog G m d) = temperatures d"
  "timer (debugLog G m d) = timer d"
  "print_log (debugLog G m d) = print_log d @ (if debuggingOn G then [m] else [])"
  by (simp_all add: debugLog_def print_def)

lemma stopWaterPump_fields [simp]:
  "call_log (stopWaterPump G d) = call_log d @ [SwitchSet 0 False]"
  "switch_output (stopWaterPump G d) = (if fst (switch_reply d) = 0 then False else switch_output d)"
  "switch_reply (stopWaterPump G d) = switch_reply d"
  "temperatures (stopWaterPump G d) = temperatures d"
  by (simp_all add: stopWaterPump_def Switch_Set_def Let_def)

lemma startWaterPump_fields [simp]:
  "call_log (startWaterPump G d) = call_log d @ [SwitchSet 0 True]"
  "switch_output (startWaterPump G d) = (if fst (switch_reply d) = 0 then True else switch_output d)"
  "switch_reply (startWaterPump G d) = switch_reply d"
  "temperatures (startWaterPump G d) = temperatures d"
  by (simp_all add: startWaterPump_def Switch_Set_def Let_def)

text \<open>With both reads successful, the calls of one run are those of the first branch taken.\<close>

lemma commands_readings:
  assumes "temperatures d (hotWaterTemperatureID c) = Inr (Num hot)"
    and "temperatures d (heatingSourceTemperatureID c) = Inr (Num src)"
  shows "commands G c d =
    (if jge hot (maxWaterTemp c) \<and> switch_output d then [SwitchSet 0 False]
     else if jle src (jadd hot (waterPumpStopDifference c)) \<and> switch_output d then [SwitchSet 0 False]
     else if jlt hot (maxWaterTemp c) \<and> jge src (jadd hot (waterPumpHysteresis c)) \<and> \<not> switch_output d
       then [SwitchSet 0 True]
     else [])"
  using assms by (simp add: commands_def checkAndAdjust_def Let_def waterPumpRunning_def)

lemma checkAndAdjust_keeps [simp]:
  "temperatures (checkAndAdjust G c d) = temperatures d"
  "switch_reply (checkAndAdjust G c d) = switch_reply d"
  by (simp_all add: checkAndAdjust_def Let_def split: sum.splits)

lemma call_log_checkAndAdjust:
  "call_log (checkAndAdjust G c d) = call_log d @ commands G c d"
  by (simp add: commands_def checkAndAdjust_def Let_def split: sum.splits)

lemma call_log_run:
  "call_log (run G d) = call_log d @ SwitchSet 0 False # commands G G (stopWaterPump G d)"
  by (simp add: run_def Let_def call_log_checkAndAdjust)

lemma Switch_Set_print_log [simp]: "print_log (Switch_Set on d) = print_log d"
  by (simp add: Switch_Set_def)

text \<open>With \<open>debuggingOn\<close> false nothing is ever printed.\<close>

lemma quiet_print_log:
  assumes "\<not> debuggingOn G"
  shows "print_log (stopWaterPump G d) = print_log d"
    and "print_log (startWaterPump G d) = print_log d"
    and "print_log (checkAndAdjust G c d) = print_log d"
    and "print_log (run G d) = print_log d"
proof -
  show stop: "print_log (stopWaterPump G d) = print_log d" for d
    using assms by (simp add: stopWaterPump_def Let_def)
  show start: "print_log (startWaterPump G d) = print_log d" for d
    using assms by (simp add: startWaterPump_def Let_def)
  show chk: "print_log (checkAndAdjust G c d) = print_log d" for c d
    using assms by (simp add: checkAndAdjust_def Let_def stop start split: sum.splits)
  show "print_log (run G d) = print_log d"
    by (simp add: run_def Let_def chk stop)
qed

subsection \<open>The fixtures\<close>

lemma mock_fields [simp]:
  "switch_output (mock t s on) = on"
  "temperatures (mock t s on) (Finite 100) = t"
  "temperatures (mock t s on) (Finite 101) = s"
  "switch_reply (mock t s on) = (0, [])"
  "call_log (mock t s on) = []"
  "print_log (mock t s on) = []"
  by (simp_all add: mock_def)

lemma default_fields [simp]:
  "hotWaterTemperatureID default_config = Finite 100"
  "heatingSourceTemperatureID default_config = Finite 101"
  "maxWaterTemp default_config = Finite 65"
  "waterPumpHysteresis default_config = Finite 7"
  "waterPumpStopDifference default_config = Finite 5"
  "scanInterval default_config = Finite 30"
  "debuggingOn default_config = False"
  by (simp_all add: default_config_def)

lemma verbose_fields [simp]:
  "hotWaterTemperatureID verbose_config = Finite 100"
  "heatingSourceTemperatureID verbose_config = Finite 101"
  "debuggingOn verbose_config = True"
  by (simp_all add: verbose_config_def)

lemma narrow_fields [simp]:
  "hotWaterTemperatureID narrow_config = Finite 100"
  "heatingSourceTemperatureID narrow_config = Finite 101"
  "maxWaterTemp narrow_config = Finite 65"
  by (simp_all add: narrow_config_def)

text \<open>Both thresholds of \<open>narrow_config\<close> round to the same Number at a tank of 40.\<close>

lemma narrow_sums:
  "jadd (Finite 40) (waterPumpHysteresis narrow_config) = Finite 45"
  "jadd (Finite 40) (waterPumpStopDifference narrow_config) = Finite 45"
  by (simp_all add: narrow_config_def round64_eval)

lemma narrow_ordered:
  "jlt (waterPumpStopDifference narrow_config) (waterPumpHysteresis narrow_config)"
  by (simp add: narrow_config_def)

lemma narrow_representable:
  "round64 (5 + 1 / 2 ^ 50) = Finite (5 + 1 / 2 ^ 50)"
  by (simp add: round64_eval)

subsection \<open>The merge\<close>

lemmas put_eval = put_def array_index_def digit_def decimal_def

lemma map_of_replace:
  "k \<in> set (map fst t) \<Longrightarrow> map_of (replace k v t) = (map_of t)(k \<mapsto> v)"
proof (induction t)
  case Nil
  then show ?case by simp
next
  case (Cons p t)
  obtain k' v' where p: "p = (k', v')" by (cases p)
  show ?case
  proof (cases "k = k'")
    case True
    then show ?thesis by (simp add: p fun_eq_iff)
  next
    case False
    with Cons.prems have "k \<in> set (map fst t)" by (simp add: p)
    from Cons.IH [OF this] False show ?thesis by (auto simp: p fun_eq_iff)
  qed
qed

lemma map_of_insert_index:
  "k \<notin> set (map fst t) \<Longrightarrow> map_of (insert_index i k v t) = (map_of t)(k \<mapsto> v)"
  by (induction t) (auto simp: fun_upd_twist split: option.splits)

lemma map_of_append_new:
  "k \<notin> set (map fst t) \<Longrightarrow> map_of (t @ [(k, v)]) = (map_of t)(k \<mapsto> v)"
  by (induction t) (auto simp: fun_upd_twist)

text \<open>Every name but \<open>__proto__\<close> is a property of the target after its assignment.\<close>

lemma map_of_put:
  "map_of (put k v t) = (if k = ''__proto__'' then map_of t else (map_of t)(k \<mapsto> v))"
  by (simp add: put_def map_of_replace map_of_insert_index map_of_append_new
      del: map_of_append split: option.splits)

lemma Object_assign_Nil: "Object_assign t [] = t"
  by (simp add: Object_assign_def)

text \<open>A later source entry overrides an earlier one and the target.\<close>

lemma map_of_Object_assign:
  "map_of (Object_assign t ps) =
     map_of t ++ map_of (rev (filter (\<lambda>(k, v). k \<noteq> ''__proto__'') ps))"
  unfolding Object_assign_def
proof (induction ps arbitrary: t)
  case Nil
  show ?case by simp
next
  case (Cons p ps)
  obtain k v where p: "p = (k, v)" by (cases p)
  show ?case
  proof (cases "k = ''__proto__''")
    case True
    then show ?thesis using Cons [of t] by (simp add: p put_def)
  next
    case False
    have "map_of (put k v t) ++ m = map_of t ++ ([k \<mapsto> v] ++ m)" for m
      using False by (simp add: map_of_put map_add_def fun_eq_iff split: option.splits)
    with Cons [of "put k v t"] False show ?thesis
      by (simp add: p map_add_def fun_eq_iff split: option.splits)
  qed
qed

lemma map_of_filter_key:
  "map_of (filter (\<lambda>(k, v). P k) ps) k = (if P k then map_of ps k else None)"
  by (induction ps) auto

lemma map_of_strip:
  "map_of (rev (strip_unrecognized ps)) k = (if recognized k then map_of (rev ps) k else None)"
  by (simp add: strip_unrecognized_def rev_filter map_of_filter_key)

lemma merged_default [simp]: "Object_assign [] DEFAULT_CONFIG = DEFAULT_CONFIG"
  by (simp add: Object_assign_def DEFAULT_CONFIG_def put_eval)

lemma merged_lookup:
  "map_of (mergedCONFIG (JObj ps)) k =
     (case (if k = ''__proto__'' then None else map_of (rev ps) k) of
        Some v \<Rightarrow> Some v | None \<Rightarrow> map_of DEFAULT_CONFIG k)"
  by (simp add: mergedCONFIG_def map_of_Object_assign map_add_def rev_filter map_of_filter_key)

lemma unrecognized_default: "\<not> recognized k \<Longrightarrow> map_of DEFAULT_CONFIG k = None"
  by (simp add: recognized_def map_of_eq_None_iff)

lemma recognized_keys:
  "recognized ''scanInterval''" "recognized ''hotWaterTemperatureID''"
  "recognized ''heatingSourceTemperatureID''" "recognized ''maxWaterTemp''"
  "recognized ''waterPumpHysteresis''" "recognized ''waterPumpStopDifference''"
  "recognized ''debuggingOn''"
  by (simp_all add: recognized_def DEFAULT_CONFIG_def)

lemma proto_unrecognized: "\<not> recognized ''__proto__''"
  by (simp add: recognized_def DEFAULT_CONFIG_def)

lemma recognized_lookup:
  "recognized k \<Longrightarrow>
     map_of (mergedCONFIG (JObj (strip_unrecognized ps))) k = map_of (mergedCONFIG (JObj ps)) k"
  by (simp add: merged_lookup map_of_strip)

lemma recognized_num_field:
  "recognized k \<Longrightarrow>
     num_field (mergedCONFIG (JObj (strip_unrecognized ps))) k = num_field (mergedCONFIG (JObj ps)) k"
  by (simp add: num_field_def recognized_lookup)

text \<open>
  What becomes of an unrecognized entry: it is copied as it is, except \<open>__proto__\<close>, which
  leaves no property.
\<close>

lemma unrecognized_copied:
  "\<not> recognized k \<Longrightarrow> k \<noteq> ''__proto__'' \<Longrightarrow>
     map_of (mergedCONFIG (JObj ps)) k = map_of (rev ps) k"
  by (simp add: merged_lookup unrecognized_default split: option.splits)

lemma proto_not_copied: "map_of (mergedCONFIG (JObj ps)) ''__proto__'' = None"
  by (simp add: merged_lookup unrecognized_default proto_unrecognized)

text \<open>An array index is enumerated before the names of the defaults.\<close>

lemma merged_array_example:
  "mergedCONFIG (JArr [JBool True]) = (''0'', JBool True) # DEFAULT_CONFIG"
  by (simp add: mergedCONFIG_def Object_assign_def DEFAULT_CONFIG_def put_eval upt_rec)

lemma merged_string_example:
  "mergedCONFIG (JStr ''ab'') = (''0'', JStr ''a'') # (''1'', JStr ''b'') # DEFAULT_CONFIG"
  by (simp add: mergedCONFIG_def Object_assign_def DEFAULT_CONFIG_def put_eval upt_rec)

lemma merged_proto_example:
  "mergedCONFIG (JObj [(''__proto__'', JNum (Finite 5))]) = DEFAULT_CONFIG"
  by (simp add: mergedCONFIG_def Object_assign_def DEFAULT_CONFIG_def put_eval)

lemma as_config_default: "as_config DEFAULT_CONFIG = Some default_config"
  by (simp add: as_config_def num_field_def DEFAULT_CONFIG_def default_config_def)

subsection \<open>The callback of \<open>init\<close>\<close>

text \<open>A stored text that does not parse leaves \<open>loadedConfig\<close> empty, and \<open>run\<close> starts
  with the defaults and without any line printed before it.\<close>

lemma init_parse_fault:
  assumes "kvs_code d = 0" and "kvs_value d = Some raw" and "JSON_parse raw = Inl e"
  shows "loadedConfig JSON_parse d = JObj []"
    and "init JSON_parse d =
           Inr (DEFAULT_CONFIG,
                run default_config (d\<lparr>call_log := call_log d @ [KVSGet KVS_CONFIG_KEY]\<rparr>))"
proof -
  show "loadedConfig JSON_parse d = JObj []"
    using assms by (simp add: loadedConfig_def)
  have "loadedConfig JSON_parse (d\<lparr>call_log := call_log d @ [KVSGet KVS_CONFIG_KEY]\<rparr>) = JObj []"
    using assms by (simp add: loadedConfig_def)
  then show "init JSON_parse d =
           Inr (DEFAULT_CONFIG,
                run default_config (d\<lparr>call_log := call_log d @ [KVSGet KVS_CONFIG_KEY]\<rparr>))"
    by (simp add: init_def Let_def mergedCONFIG_def Object_assign_Nil as_config_default
        debugLog_def)
qed

lemma init_call_log:
  assumes "init JSON_parse d = Inr (C, d')"
  shows "take (Suc (Suc (length (call_log d)))) (call_log d')
           = call_log d @ [KVSGet KVS_CONFIG_KEY, SwitchSet 0 False]"
  using assms
  by (auto simp: init_def Let_def call_log_run split: sum.splits option.splits)

lemma stored_fault:
  "kvs_code (stored ''{oops'') = 0"
  "kvs_value (stored ''{oops'') = Some ''{oops''"
  "mock_parse ''{oops'' = Inl ''SyntaxError: Unexpected token''"
  by (simp_all add: stored_def mock_def mock_parse_def)

section \<open>The properties\<close>

text \<open>
  In the statements below a Start is the call \<open>SwitchSet 0 True\<close>, a Stop is the call
  \<open>SwitchSet 0 False\<close>, and a Hold is a run of \<open>checkAndAdjust\<close> that makes no call:
  \<open>commands G c d\<close> is what one run adds to the call log.
\<close>

subsection \<open>C1: a failed sensor read\<close>

text \<open>
  C1, as stated: whenever the reading of the tank sensor or of the source sensor has failed,
  the run is a Hold with a rationale identifying which sensor failed. This fails twice.

  The rationale is the line \<open>"Error: " + err\<close> of the \<open>catch\<close> block, and \<open>err\<close> is
  whatever the failing read raised: when both sensors raise the same exception, a failure
  of the tank sensor alone and a failure of the source sensor alone print the same line.

  A reading that has failed without an exception is not held at all: the field \<open>tC\<close> is
  used unchecked, a \<open>null\<close> counts as 0 degrees, and with a tank reading of \<open>null\<close>, a
  source of 48 and the pump stopped the run is a Start.
\<close>

theorem sensor_fault_counterexample:
  "failed (temperatures (mock (Inl ''read failed'') (Inr (Num (Finite 48))) False)
         (hotWaterTemperatureID verbose_config))
   \<and> \<not> failed (temperatures (mock (Inl ''read failed'') (Inr (Num (Finite 48))) False)
         (heatingSourceTemperatureID verbose_config))
   \<and> \<not> failed (temperatures (mock (Inr (Num (Finite 40))) (Inl ''read failed'') False)
         (hotWaterTemperatureID verbose_config))
   \<and> failed (temperatures (mock (Inr (Num (Finite 40))) (Inl ''read failed'') False)
         (heatingSourceTemperatureID verbose_config))
   \<and> printed verbose_config verbose_config
         (mock (Inl ''read failed'') (Inr (Num (Finite 48))) False)
       = [[S ''Error: '', S ''read failed'']]
   \<and> printed verbose_config verbose_config
         (mock (Inr (Num (Finite 40))) (Inl ''read failed'') False)
       = [[S ''Error: '', S ''read failed'']]
   \<and> failed (temperatures (mock (Inr Null) (Inr (Num (Finite 48))) False)
         (hotWaterTemperatureID default_config))
   \<and> commands default_config default_config (mock (Inr Null) (Inr (Num (Finite 48))) False)
       = [SwitchSet 0 True]
   \<and> switch_output (checkAndAdjust default_config default_config
         (mock (Inr Null) (Inr (Num (Finite 48))) False))"
  by (simp add: printed_def commands_def checkAndAdjust_def Let_def waterPumpRunning_def
      jge_def jle_def round_examples)

text \<open>
  C1, amended: whenever the read of the tank sensor or the read of the source sensor raises
  an exception, the run is a Hold: no call is made and the switch keeps its state. The only
  thing that happens is the debug line \<open>"Error: " + err\<close>, where \<open>err\<close> is the exception
  raised by the first such read (the tank's if the tank read raised, otherwise the
  source's); it is printed when \<open>debuggingOn\<close> is set. Nothing is stated about a reading
  that has failed without an exception.
\<close>

theorem sensor_fault_hold:
  assumes "isl (temperatures d (hotWaterTemperatureID c))
         \<or> isl (temperatures d (heatingSourceTemperatureID c))"
  shows "\<exists>err. first_fault c d = Some err
           \<and> checkAndAdjust G c d = debugLog G [S ''Error: '', S err] d
           \<and> commands G c d = []
           \<and> switch_output (checkAndAdjust G c d) = switch_output d
           \<and> printed G c d = (if debuggingOn G then [[S ''Error: '', S err]] else [])"
  using assms
  by (auto simp: first_fault_def checkAndAdjust_def commands_def printed_def isl_def
      split: sum.splits)

theorem sensor_fault_hold_witness:
  "isl (temperatures (mock (Inr (Num (Finite 40))) (Inl ''read failed'') True)
         (heatingSourceTemperatureID default_config))
   \<and> commands default_config default_config (mock (Inr (Num (Finite 40))) (Inl ''read failed'') True) = []
   \<and> switch_output (checkAndAdjust default_config default_config
        (mock (Inr (Num (Finite 40))) (Inl ''read failed'') True)) = True"
  using sensor_fault_hold [of "mock (Inr (Num (Finite 40))) (Inl ''read failed'') True"
      default_config default_config]
  by auto

subsection \<open>C2: no Start at or above the maximum\<close>

text \<open>
  C2. For every configuration, every pair of successful readings and every pump state, a run
  makes no Start while the tank temperature is greater than or equal to \<open>maxWaterTemp\<close>; in
  particular not when the two are equal, the start branch testing with a strict \<open><\<close>.
\<close>

theorem no_start_at_max:
  assumes "temperatures d (hotWaterTemperatureID c) = Inr (Num hot)"
    and "temperatures d (heatingSourceTemperatureID c) = Inr (Num src)"
    and "jge hot (maxWaterTemp c) \<or> hot = maxWaterTemp c"
  shows "SwitchSet 0 True \<notin> set (commands G c d)"
proof -
  have "\<not> jlt hot (maxWaterTemp c)"
    using assms(3) by (auto simp: jge_def jlt_irrefl)
  then show ?thesis
    by (simp add: commands_readings [OF assms(1,2)])
qed

theorem no_start_at_max_witness:
  "temperatures (mock (Inr (Num (Finite 65))) (Inr (Num (Finite 80))) False)
       (hotWaterTemperatureID default_config) = Inr (Num (Finite 65))
   \<and> temperatures (mock (Inr (Num (Finite 65))) (Inr (Num (Finite 80))) False)
       (heatingSourceTemperatureID default_config) = Inr (Num (Finite 80))
   \<and> Finite 65 = maxWaterTemp default_config
   \<and> jge (Finite 80) (jadd (Finite 65) (waterPumpHysteresis default_config))
   \<and> SwitchSet 0 True \<notin> set (commands default_config default_config
         (mock (Inr (Num (Finite 65))) (Inr (Num (Finite 80))) False))"
proof -
  let ?d = "mock (Inr (Num (Finite 65))) (Inr (Num (Finite 80))) False"
  have h: "temperatures ?d (hotWaterTemperatureID default_config) = Inr (Num (Finite 65))"
    "temperatures ?d (heatingSourceTemperatureID default_config) = Inr (Num (Finite 80))"
    "jge (Finite 65) (maxWaterTemp default_config) \<or> Finite 65 = maxWaterTemp default_config"
    by (simp_all add: jge_def)
  have s: "jge (Finite 80) (jadd (Finite 65) (waterPumpHysteresis default_config))"
    by (simp add: jge_def round_examples)
  from no_start_at_max [OF h, of default_config] h s show ?thesis by simp
qed

subsection \<open>C3: the maximum-temperature cutoff\<close>

text \<open>
  C3. With two successful readings, the tank at or above \<open>maxWaterTemp\<close> and the pump
  running, a run makes exactly one call, a Stop, whatever the source temperature is.
\<close>

theorem max_cutoff_stops:
  assumes "temperatures d (hotWaterTemperatureID c) = Inr (Num hot)"
    and "temperatures d (heatingSourceTemperatureID c) = Inr (Num src)"
    and "jge hot (maxWaterTemp c)"
    and "switch_output d"
  shows "commands G c d = [SwitchSet 0 False]"
  using assms(3,4) by (simp add: commands_readings [OF assms(1,2)])

theorem max_cutoff_stops_witness:
  "temperatures (mock (Inr (Num (Finite 65))) (Inr (Num (Finite 80))) True)
       (hotWaterTemperatureID default_config) = Inr (Num (Finite 65))
   \<and> temperatures (mock (Inr (Num (Finite 65))) (Inr (Num (Finite 80))) True)
       (heatingSourceTemperatureID default_config) = Inr (Num (Finite 80))
   \<and> jge (Finite 65) (maxWaterTemp default_config)
   \<and> switch_output (mock (Inr (Num (Finite 65))) (Inr (Num (Finite 80))) True)
   \<and> commands default_config default_config (mock (Inr (Num (Finite 65))) (Inr (Num (Finite 80))) True)
       = [SwitchSet 0 False]"
proof -
  let ?d = "mock (Inr (Num (Finite 65))) (Inr (Num (Finite 80))) True"
  have h: "temperatures ?d (hotWaterTemperatureID default_config) = Inr (Num (Finite 65))"
    "temperatures ?d (heatingSourceTemperatureID default_config) = Inr (Num (Finite 80))"
    "jge (Finite 65) (maxWaterTemp default_config)"
    "switch_output ?d"
    by (simp_all add: jge_def)
  from max_cutoff_stops [OF h, of default_config] h show ?thesis by simp
qed

subsection \<open>C4: two runs on unchanged readings\<close>

text \<open>
  C4, as stated: with \<open>waterPumpStopDifference < waterPumpHysteresis\<close>, a run that makes a
  Start (or a Stop) which the switch obeys is followed, on the same readings, by a Hold.
  This fails. The two thresholds are the rounded sums \<open>tank + waterPumpStopDifference\<close>
  and \<open>tank + waterPumpHysteresis\<close>, and two different hysteresis values can round to the
  same sum: with a tank of 40, a source of 45 and hysteresis values 5 and 5.000000000000001
  both sums are 45, the stopped pump is started (\<open>45 >= 45\<close>) and the running pump is
  stopped by the next run (\<open>45 <= 45\<close>).
\<close>

theorem oscillation_counterexample:
  "jlt (waterPumpStopDifference narrow_config) (waterPumpHysteresis narrow_config)
   \<and> commands narrow_config narrow_config (mock (Inr (Num (Finite 40))) (Inr (Num (Finite 45))) False)
       = [SwitchSet 0 True]
   \<and> switch_output (checkAndAdjust narrow_config narrow_config
        (mock (Inr (Num (Finite 40))) (Inr (Num (Finite 45))) False)) = True
   \<and> commands narrow_config narrow_config
        (checkAndAdjust narrow_config narrow_config
           (mock (Inr (Num (Finite 40))) (Inr (Num (Finite 45))) False))
       = [SwitchSet 0 False]"
proof -
  let ?d = "mock (Inr (Num (Finite 40))) (Inr (Num (Finite 45))) False"
  let ?d' = "checkAndAdjust narrow_config narrow_config ?d"
  have first: "commands narrow_config narrow_config ?d = [SwitchSet 0 True]"
    by (simp add: commands_readings [of ?d narrow_config "Finite 40" "Finite 45"]
          narrow_sums jge_def jle_def)
  have out: "switch_output ?d' = True"
    by (simp add: checkAndAdjust_def Let_def waterPumpRunning_def narrow_sums jge_def jle_def)
  have second: "commands narrow_config narrow_config ?d' = [SwitchSet 0 False]"
    using out
    by (simp add: commands_readings [of ?d' narrow_config "Finite 40" "Finite 45"]
          narrow_sums jge_def jle_def)
  show ?thesis
    using first out second narrow_ordered by simp
qed

text \<open>
  C4, amended: with \<open>waterPumpStopDifference < waterPumpHysteresis\<close> and readings at which
  the two computed thresholds are still strictly ordered, a run that makes a Start (or a
  Stop) which the switch obeys is followed, on the same readings, by a Hold.
\<close>

theorem no_oscillation:
  assumes "temperatures d (hotWaterTemperatureID c) = Inr (Num hot)"
    and "temperatures d (heatingSourceTemperatureID c) = Inr (Num src)"
    and "jlt (waterPumpStopDifference c) (waterPumpHysteresis c)"
    and "jlt (jadd hot (waterPumpStopDifference c)) (jadd hot (waterPumpHysteresis c))"
    and "fst (switch_reply d) = 0"
    and "commands G c d = [SwitchSet 0 on]"
  shows "switch_output (checkAndAdjust G c d) = on
       \<and> temperatures (checkAndAdjust G c d) = temperatures d
       \<and> commands G c (checkAndAdjust G c d) = []"
proof -
  let ?d' = "checkAndAdjust G c d"
  have r: "temperatures ?d' (hotWaterTemperatureID c) = Inr (Num hot)"
          "temperatures ?d' (heatingSourceTemperatureID c) = Inr (Num src)"
    using assms(1,2) by simp_all
  note first = assms(6) [unfolded commands_readings [OF assms(1,2)]]
  have out: "switch_output ?d' = on"
    using first assms(1,2,5)
    by (auto simp: checkAndAdjust_def Let_def waterPumpRunning_def split: if_splits)
  have "commands G c ?d' = []"
  proof (cases on)
    case True
    with first have "jge src (jadd hot (waterPumpHysteresis c))" and "jlt hot (maxWaterTemp c)"
      by (auto split: if_splits)
    then have "\<not> jle src (jadd hot (waterPumpStopDifference c))" and "\<not> jge hot (maxWaterTemp c)"
      using assms(4) jlt_chain jge_not_jlt by blast+
    then show ?thesis
      using out True by (simp add: commands_readings [OF r])
  next
    case False
    with first have "jge hot (maxWaterTemp c) \<or> jle src (jadd hot (waterPumpStopDifference c))"
      by (auto split: if_splits)
    then have "\<not> jlt hot (maxWaterTemp c) \<or> \<not> jge src (jadd hot (waterPumpHysteresis c))"
      using assms(4) jlt_chain2 jge_not_jlt by blast
    then show ?thesis
      using out False by (auto simp add: commands_readings [OF r])
  qed
  with out show ?thesis by simp
qed

theorem no_oscillation_witness:
  "temperatures (mock (Inr (Num (Finite 40))) (Inr (Num (Finite 48))) False)
       (hotWaterTemperatureID default_config) = Inr (Num (Finite 40))
   \<and> temperatures (mock (Inr (Num (Finite 40))) (Inr (Num (Finite 48))) False)
       (heatingSourceTemperatureID default_config) = Inr (Num (Finite 48))
   \<and> jlt (waterPumpStopDifference default_config) (waterPumpHysteresis default_config)
   \<and> jlt (jadd (Finite 40) (waterPumpStopDifference default_config))
          (jadd (Finite 40) (waterPumpHysteresis default_config))
   \<and> fst (switch_reply (mock (Inr (Num (Finite 40))) (Inr (Num (Finite 48))) False)) = 0
   \<and> commands default_config default_config (mock (Inr (Num (Finite 40))) (Inr (Num (Finite 48))) False)
       = [SwitchSet 0 True]
   \<and> switch_output (checkAndAdjust default_config default_config
        (mock (Inr (Num (Finite 40))) (Inr (Num (Finite 48))) False))
   \<and> commands default_config default_config
        (checkAndAdjust default_config default_config
           (mock (Inr (Num (Finite 40))) (Inr (Num (Finite 48))) False)) = []"
proof -
  let ?d = "mock (Inr (Num (Finite 40))) (Inr (Num (Finite 48))) False"
  have h: "temperatures ?d (hotWaterTemperatureID default_config) = Inr (Num (Finite 40))"
    "temperatures ?d (heatingSourceTemperatureID default_config) = Inr (Num (Finite 48))"
    "jlt (waterPumpStopDifference default_config) (waterPumpHysteresis default_config)"
    "jlt (jadd (Finite 40) (waterPumpStopDifference default_config))
         (jadd (Finite 40) (waterPumpHysteresis default_config))"
    "fst (switch_reply ?d) = 0"
    by (simp_all add: round_examples)
  have c: "commands default_config default_config ?d = [SwitchSet 0 True]"
    by (simp add: commands_readings [OF h(1,2)] round_examples jge_def jle_def)
  from no_oscillation [OF h c] h c show ?thesis by simp
qed

subsection \<open>C5: the start condition\<close>

text \<open>
  C5. With two successful readings, the tank below \<open>maxWaterTemp\<close>, the pump stopped and
  the source at or above \<open>tank + waterPumpHysteresis\<close>, a run makes exactly one call, a
  Start.
\<close>

theorem start_when_hot_enough:
  assumes "temperatures d (hotWaterTemperatureID c) = Inr (Num hot)"
    and "temperatures d (heatingSourceTemperatureID c) = Inr (Num src)"
    and "jlt hot (maxWaterTemp c)"
    and "\<not> switch_output d"
    and "jge src (jadd hot (waterPumpHysteresis c))"
  shows "commands G c d = [SwitchSet 0 True]"
  using assms(3,4,5) by (simp add: commands_readings [OF assms(1,2)])

theorem start_when_hot_enough_witness:
  "temperatures (mock (Inr (Num (Finite 40))) (Inr (Num (Finite 48))) False)
       (hotWaterTemperatureID default_config) = Inr (Num (Finite 40))
   \<and> temperatures (mock (Inr (Num (Finite 40))) (Inr (Num (Finite 48))) False)
       (heatingSourceTemperatureID default_config) = Inr (Num (Finite 48))
   \<and> jlt (Finite 40) (maxWaterTemp default_config)
   \<and> \<not> switch_output (mock (Inr (Num (Finite 40))) (Inr (Num (Finite 48))) False)
   \<and> jge (Finite 48) (jadd (Finite 40) (waterPumpHysteresis default_config))
   \<and> commands default_config default_config (mock (Inr (Num (Finite 40))) (Inr (Num (Finite 48))) False)
       = [SwitchSet 0 True]"
proof -
  let ?d = "mock (Inr (Num (Finite 40))) (Inr (Num (Finite 48))) False"
  have h: "temperatures ?d (hotWaterTemperatureID default_config) = Inr (Num (Finite 40))"
    "temperatures ?d (heatingSourceTemperatureID default_config) = Inr (Num (Finite 48))"
    "jlt (Finite 40) (maxWaterTemp default_config)"
    "\<not> switch_output ?d"
    "jge (Finite 48) (jadd (Finite 40) (waterPumpHysteresis default_config))"
    by (simp_all add: jge_def round_examples)
  from start_when_hot_enough [OF h, of default_config] h show ?thesis by simp
qed

subsection \<open>C6: the efficiency cutoff\<close>

text \<open>
  C6. With two successful readings, the pump running and the source at or below
  \<open>tank + waterPumpStopDifference\<close>, a run makes exactly one call, a Stop (through the
  first or the second branch).
\<close>

theorem efficiency_cutoff_stops:
  assumes "temperatures d (hotWaterTemperatureID c) = Inr (Num hot)"
    and "temperatures d (heatingSourceTemperatureID c) = Inr (Num src)"
    and "switch_output d"
    and "jle src (jadd hot (waterPumpStopDifference c))"
  shows "commands G c d = [SwitchSet 0 False]"
  using assms(3,4) by (simp add: commands_readings [OF assms(1,2)])

theorem efficiency_cutoff_stops_witness:
  "temperatures (mock (Inr (Num (Finite 50))) (Inr (Num (Finite 54))) True)
       (hotWaterTemperatureID default_config) = Inr (Num (Finite 50))
   \<and> temperatures (mock (Inr (Num (Finite 50))) (Inr (Num (Finite 54))) True)
       (heatingSourceTemperatureID default_config) = Inr (Num (Finite 54))
   \<and> switch_output (mock (Inr (Num (Finite 50))) (Inr (Num (Finite 54))) True)
   \<and> jle (Finite 54) (jadd (Finite 50) (waterPumpStopDifference default_config))
   \<and> commands default_config default_config (mock (Inr (Num (Finite 50))) (Inr (Num (Finite 54))) True)
       = [SwitchSet 0 False]"
proof -
  let ?d = "mock (Inr (Num (Finite 50))) (Inr (Num (Finite 54))) True"
  have h: "temperatures ?d (hotWaterTemperatureID default_config) = Inr (Num (Finite 50))"
    "temperatures ?d (heatingSourceTemperatureID default_config) = Inr (Num (Finite 54))"
    "switch_output ?d"
    "jle (Finite 54) (jadd (Finite 50) (waterPumpStopDifference default_config))"
    by (simp_all add: jle_def round_examples)
  from efficiency_cutoff_stops [OF h, of default_config] h show ?thesis by simp
qed

subsection \<open>C7: merging overrides over the defaults\<close>

text \<open>
  C7. The merge of the empty override map is \<open>DEFAULT_CONFIG\<close>, field for field
  (\<open>scanInterval\<close> 30, sensor IDs 100 and 101, \<open>maxWaterTemp\<close> 65, \<open>waterPumpHysteresis\<close> 7,
  \<open>waterPumpStopDifference\<close> 5, \<open>debuggingOn\<close> false); the merge of
  \<open>{maxWaterTemp: 80, scanInterval: 60}\<close> has these two fields overridden and every other
  field at its default.
\<close>

theorem config_merge:
  "mergedCONFIG (JObj []) = DEFAULT_CONFIG
   \<and> mergedCONFIG (JObj []) =
       [(''scanInterval'', JNum (Finite 30)),
        (''hotWaterTemperatureID'', JNum (Finite 100)),
        (''heatingSourceTemperatureID'', JNum (Finite 101)),
        (''maxWaterTemp'', JNum (Finite 65)),
        (''waterPumpHysteresis'', JNum (Finite 7)),
        (''waterPumpStopDifference'', JNum (Finite 5)),
        (''debuggingOn'', JBool False)]
   \<and> mergedCONFIG (JObj [(''maxWaterTemp'', JNum (Finite 80)), (''scanInterval'', JNum (Finite 60))]) =
       [(''scanInterval'', JNum (Finite 60)),
        (''hotWaterTemperatureID'', JNum (Finite 100)),
        (''heatingSourceTemperatureID'', JNum (Finite 101)),
        (''maxWaterTemp'', JNum (Finite 80)),
        (''waterPumpHysteresis'', JNum (Finite 7)),
        (''waterPumpStopDifference'', JNum (Finite 5)),
        (''debuggingOn'', JBool False)]
   \<and> as_config (mergedCONFIG (JObj [])) = Some default_config
   \<and> hotWaterTemperatureID default_config \<noteq> heatingSourceTemperatureID default_config
   \<and> as_config (mergedCONFIG
        (JObj [(''maxWaterTemp'', JNum (Finite 80)), (''scanInterval'', JNum (Finite 60))])) =
       Some (default_config\<lparr>maxWaterTemp := Finite 80, scanInterval := Finite 60\<rparr>)"
  by (simp add: mergedCONFIG_def Object_assign_def DEFAULT_CONFIG_def as_config_def num_field_def
      default_config_def put_eval)

subsection \<open>C8: unrecognized field names\<close>

text \<open>
  C8, as stated: the merge of an override map equals the merge of the same map without its
  unrecognized entries, so that an unrecognized name does not appear in the result. This
  fails: \<open>Object.assign\<close> copies every entry, and the merge of \<open>{colour: "red"}\<close> has
  the property \<open>colour\<close>.
\<close>

theorem unrecognized_counterexample:
  "mergedCONFIG (JObj [(''colour'', JStr ''red'')])
     \<noteq> mergedCONFIG (JObj (strip_unrecognized [(''colour'', JStr ''red'')]))
   \<and> map_of (mergedCONFIG (JObj [(''colour'', JStr ''red'')])) ''colour'' = Some (JStr ''red'')
   \<and> \<not> recognized ''colour''"
  by (simp add: mergedCONFIG_def Object_assign_def DEFAULT_CONFIG_def strip_unrecognized_def
      recognized_def put_eval)

text \<open>
  C8, amended: an unrecognized entry of the override map has no effect on any recognized
  field: every recognized field of the merged object, and so the configuration the script
  reads, is the same as in the merge of the map without its unrecognized entries. (The two
  merged objects need not be identical: an unrecognized name can appear in the result.)
\<close>

theorem unrecognized_carried:
  "(\<forall>k. recognized k \<longrightarrow>
        map_of (mergedCONFIG (JObj ps)) k = map_of (mergedCONFIG (JObj (strip_unrecognized ps))) k)
   \<and> as_config (mergedCONFIG (JObj ps)) = as_config (mergedCONFIG (JObj (strip_unrecognized ps)))"
proof (intro conjI allI impI)
  fix k assume "recognized k"
  then show "map_of (mergedCONFIG (JObj ps)) k = map_of (mergedCONFIG (JObj (strip_unrecognized ps))) k"
    by (simp add: recognized_lookup)
next
  show "as_config (mergedCONFIG (JObj ps)) = as_config (mergedCONFIG (JObj (strip_unrecognized ps)))"
    unfolding as_config_def
    by (simp only: recognized_num_field [OF recognized_keys(1)]
        recognized_num_field [OF recognized_keys(2)] recognized_num_field [OF recognized_keys(3)]
        recognized_num_field [OF recognized_keys(4)] recognized_num_field [OF recognized_keys(5)]
        recognized_num_field [OF recognized_keys(6)] recognized_lookup [OF recognized_keys(7)])
qed

theorem unrecognized_carried_witness:
  "recognized ''maxWaterTemp''
   \<and> strip_unrecognized
        [(''colour'', JStr ''red''), (''__proto__'', JNum (Finite 5)),
         (''maxWaterTemp'', JNum (Finite 80))]
       = [(''maxWaterTemp'', JNum (Finite 80))]
   \<and> map_of (mergedCONFIG (JObj [(''colour'', JStr ''red''), (''__proto__'', JNum (Finite 5)),
         (''maxWaterTemp'', JNum (Finite 80))])) ''maxWaterTemp'' = Some (JNum (Finite 80))
   \<and> as_config (mergedCONFIG (JObj [(''colour'', JStr ''red''), (''__proto__'', JNum (Finite 5)),
         (''maxWaterTemp'', JNum (Finite 80))]))
       = Some (default_config\<lparr>maxWaterTemp := Finite 80\<rparr>)"
proof -
  have r: "recognized ''maxWaterTemp''"
    by (rule recognized_keys)
  have s: "strip_unrecognized
        [(''colour'', JStr ''red''), (''__proto__'', JNum (Finite 5)),
         (''maxWaterTemp'', JNum (Finite 80))]
       = [(''maxWaterTemp'', JNum (Finite 80))]"
    by (simp add: strip_unrecognized_def recognized_def DEFAULT_CONFIG_def)
  have m: "mergedCONFIG (JObj [(''maxWaterTemp'', JNum (Finite 80))])
             = [(''scanInterval'', JNum (Finite 30)),
                (''hotWaterTemperatureID'', JNum (Finite 100)),
                (''heatingSourceTemperatureID'', JNum (Finite 101)),
                (''maxWaterTemp'', JNum (Finite 80)),
                (''waterPumpHysteresis'', JNum (Finite 7)),
                (''waterPumpStopDifference'', JNum (Finite 5)),
                (''debuggingOn'', JBool False)]"
    by (simp add: mergedCONFIG_def Object_assign_def DEFAULT_CONFIG_def put_eval)
  have a: "as_config (mergedCONFIG (JObj [(''maxWaterTemp'', JNum (Finite 80))]))
             = Some (default_config\<lparr>maxWaterTemp := Finite 80\<rparr>)"
    by (simp add: m as_config_def num_field_def default_config_def)
  from unrecognized_carried [of "[(''colour'', JStr ''red''), (''__proto__'', JNum (Finite 5)),
         (''maxWaterTemp'', JNum (Finite 80))]"]
  show ?thesis using r s m a by simp
qed

subsection \<open>C9: a stored text that does not parse\<close>

text \<open>
  C9, as stated: when the stored override text fails to parse, the defaults apply and the
  fault is reported. The second half fails: the \<open>catch\<close> block is empty, and the only line
  printed afterwards goes through \<open>debugLog\<close>, which the default \<open>debuggingOn = false\<close>
  silences. After \<open>init\<close> on the stored text \<open>{oops\<close> nothing has been printed.
\<close>

theorem parse_fault_silent_counterexample:
  "kvs_code (stored ''{oops'') = 0 \<and> kvs_value (stored ''{oops'') = Some ''{oops''
   \<and> mock_parse ''{oops'' = Inl ''SyntaxError: Unexpected token''
   \<and> map_sum id (print_log \<circ> snd) (init mock_parse (stored ''{oops'')) = Inr []"
proof -
  have "print_log (stored ''{oops'') = []"
    by (simp add: stored_def)
  then show ?thesis
    using stored_fault init_parse_fault [where d = "stored ''{oops''" and raw = "''{oops''"
      and JSON_parse = mock_parse and e = "''SyntaxError: Unexpected token''"]
    by (simp add: quiet_print_log)
qed

text \<open>
  C9, amended: when the store answers without error with a text that fails to parse, the
  override map is treated as empty and the merged configuration is \<open>DEFAULT_CONFIG\<close> field
  for field; the fault is not reported: \<open>init\<close> and the \<open>run\<close> it starts print nothing.
\<close>

theorem parse_fault_defaults:
  assumes "kvs_code d = 0" and "kvs_value d = Some raw" and "JSON_parse raw = Inl e"
  shows "loadedConfig JSON_parse d = JObj []
       \<and> mergedCONFIG (loadedConfig JSON_parse d) = DEFAULT_CONFIG
       \<and> map_sum id fst (init JSON_parse d) = Inr DEFAULT_CONFIG
       \<and> map_sum id (print_log \<circ> snd) (init JSON_parse d) = Inr (print_log d)"
  using init_parse_fault [where d = d and raw = raw and JSON_parse = JSON_parse and e = e] assms
  by (simp add: mergedCONFIG_def Object_assign_Nil quiet_print_log)

theorem parse_fault_defaults_witness:
  "kvs_code (stored ''{oops'') = 0 \<and> kvs_value (stored ''{oops'') = Some ''{oops''
   \<and> mock_parse ''{oops'' = Inl ''SyntaxError: Unexpected token''
   \<and> map_sum id fst (init mock_parse (stored ''{oops'')) = Inr DEFAULT_CONFIG"
  using parse_fault_defaults [where d = "stored ''{oops''" and raw = "''{oops''"
      and JSON_parse = mock_parse and e = "''SyntaxError: Unexpected token''"] stored_fault
  by simp

subsection \<open>C10: the pump is stopped at startup\<close>

text \<open>
  \<open>run\<close> itself stops the pump before anything else, whatever the configuration, the
  state of the switch and the sensors are, and only then checks the temperatures; when the
  callback of \<open>init\<close> reaches its end, the first two calls of the startup are the
  \<open>KVS.Get\<close> and this Stop.
\<close>

lemma run_stops_first:
  "call_log (run G d) = call_log d @ SwitchSet 0 False # commands G G (stopWaterPump G d)"
  "fst (switch_reply d) = 0 \<Longrightarrow> \<not> switch_output (stopWaterPump G d)"
  "init JSON_parse d = Inr (C, d') \<Longrightarrow>
     take (Suc (Suc (length (call_log d)))) (call_log d')
       = call_log d @ [KVSGet KVS_CONFIG_KEY, SwitchSet 0 False]"
  by (simp_all add: call_log_run init_call_log)

text \<open>
  C10. At startup, after the configuration is loaded and before the first check, the Stop
  is made whatever the stored configuration is. The callback of \<open>init\<close> does not always
  get as far as \<open>run\<close>: the stored text \<open>null\<close> parses, \<open>Object.assign\<close> takes the
  \<open>null\<close> and \<open>CONFIG\<close> is the defaults, but \<open>Object.keys(null)\<close> raises and nothing
  catches it. No Stop is made, a running pump keeps running, and no timer is set.
\<close>

theorem startup_without_stop:
  "kvs_code (running_stored ''null'') = 0
   \<and> kvs_value (running_stored ''null'') = Some ''null''
   \<and> mock_parse ''null'' = Inr JNull
   \<and> mergedCONFIG (loadedConfig mock_parse (running_stored ''null'')) = DEFAULT_CONFIG
   \<and> init mock_parse (running_stored ''null'') =
        Inl (Uncaught ''TypeError: Cannot convert undefined or null to object''
               ((running_stored ''null'')\<lparr>call_log := [KVSGet KVS_CONFIG_KEY]\<rparr>))
   \<and> switch_output ((running_stored ''null'')\<lparr>call_log := [KVSGet KVS_CONFIG_KEY]\<rparr>)
   \<and> timer ((running_stored ''null'')\<lparr>call_log := [KVSGet KVS_CONFIG_KEY]\<rparr>) = None"
  by (simp add: running_stored_def mock_def mock_parse_def init_def Let_def loadedConfig_def
      mergedCONFIG_def Object_assign_Nil)

end
